theory Spec2Isabelle
  imports Complex_Main "HOL-Library.Char_ord" "HOL-Library.List_Lexorder" "HOL-Library.Product_Lexorder"
begin

section \<open>Real-time movement generator (realtime\_data\_gen.py)\<close>

text \<open>
  The store of the real-time variant: the \<open>Products\<close> table, one row per product
  (\<open>product_name\<close>, \<open>category\<close>, \<open>instock_items\<close>), and the \<open>InventoryMovements\<close> table in
  insertion order. The timestamp column is the wall-clock time of the insert and is passed
  in by the caller of the model.
\<close>

datatype movement_type = Incoming | Outgoing

record product_row =
  p_name :: string
  p_category :: string
  p_instock_items :: int

record movement_row =
  mv_product_name :: string
  mv_timestamp :: string
  mv_movement_type :: movement_type
  mv_quantity :: int

record rt_store =
  Products :: "product_row list"
  InventoryMovements :: "movement_row list"

text \<open>
  The random draws of one call of \<open>generate_movement\<close>, in the order the source
  makes them: the row that \<open>ORDER BY RANDOM() LIMIT 1\<close> returns (an index into the table),
  the outcome of \<open>random.choices\<close>, the value of \<open>random.randint\<close>, and the two stock
  levels \<open>create_database\<close> draws when it has to seed an empty table.
\<close>

record draws =
  pick :: nat
  choice :: movement_type
  roll :: int
  seed_cylindrical :: int
  seed_box :: int

definition create_database :: "draws \<Rightarrow> rt_store" where
  "create_database d =
     \<lparr>Products =
        [\<lparr>p_name = ''Cylindrical Product'', p_category = ''Type A'',
          p_instock_items = seed_cylindrical d\<rparr>,
         \<lparr>p_name = ''Box Product'', p_category = ''Type B'',
          p_instock_items = seed_box d\<rparr>],
      InventoryMovements = []\<rparr>"

definition select_random_product :: "draws \<Rightarrow> product_row list \<Rightarrow> string option" where
  "select_random_product d rows =
     (if rows = [] then None else Some (p_name (rows ! (pick d mod length rows))))"

definition select_instock :: "product_row list \<Rightarrow> string \<Rightarrow> int option" where
  "select_instock rows name =
     (case filter (\<lambda>r. p_name r = name) rows of
        [] \<Rightarrow> None
      | r # _ \<Rightarrow> Some (p_instock_items r))"

definition update_instock :: "product_row list \<Rightarrow> string \<Rightarrow> int \<Rightarrow> product_row list" where
  "update_instock rows name new_stock =
     map (\<lambda>r. if p_name r = name then r\<lparr>p_instock_items := new_stock\<rparr> else r) rows"

text \<open>
  The quantity of the movement: the draw times \<open>frequency\<close>, then the adjustment the
  source makes for an outgoing movement that exceeds the current stock.
\<close>

definition movement_quantity :: "movement_type \<Rightarrow> int \<Rightarrow> int \<Rightarrow> int \<Rightarrow> int" where
  "movement_quantity mt r frequency current_stock =
     (let quantity = r * frequency in
      if mt = Outgoing then
        (if current_stock < quantity then max 1 current_stock else quantity)
      else quantity)"

definition new_stock_of :: "movement_type \<Rightarrow> int \<Rightarrow> int \<Rightarrow> int" where
  "new_stock_of mt current_stock quantity =
     (if mt = Incoming then current_stock + quantity else current_stock - quantity)"

text \<open>
  \<open>generate_movement(conn, frequency)\<close>. The result is the store after the commit. The
  table is seeded first when it has no product; a product that has been selected always
  has a row, so the \<open>None\<close> of the stock lookup cannot occur and leaves the store as it is.
\<close>

definition generate_movement :: "draws \<Rightarrow> string \<Rightarrow> int \<Rightarrow> rt_store \<Rightarrow> rt_store" where
  "generate_movement d now frequency st =
     (let st1 = (if Products st = [] then create_database d else st) in
      case select_random_product d (Products st1) of
        None \<Rightarrow> st1
      | Some name \<Rightarrow>
          (case select_instock (Products st1) name of
             None \<Rightarrow> st1
           | Some current_stock \<Rightarrow>
               (let quantity = movement_quantity (choice d) (roll d) frequency current_stock;
                    new_stock = new_stock_of (choice d) current_stock quantity
                in \<lparr>Products = update_instock (Products st1) name new_stock,
                    InventoryMovements = InventoryMovements st1 @
                      [\<lparr>mv_product_name = name, mv_timestamp = now,
                        mv_movement_type = choice d, mv_quantity = quantity\<rparr>]\<rparr>)))"

definition sold_out_store :: rt_store where
  "sold_out_store =
     \<lparr>Products = [\<lparr>p_name = ''Box Product'', p_category = ''Type B'', p_instock_items = 0\<rparr>],
      InventoryMovements = []\<rparr>"

definition outgoing_draws :: draws where
  "outgoing_draws =
     \<lparr>pick = 0, choice = Outgoing, roll = 1, seed_cylindrical = 50, seed_box = 100\<rparr>"

section \<open>Summary metrics of the real-time dashboard (realtime\_dashboard.py)\<close>

record summary_metrics =
  total_movements :: nat
  incoming_count :: nat
  outgoing_count :: nat
  incoming_items :: int
  outgoing_items :: int
  net_change :: int

text \<open>\<open>get_summary_metrics(df)\<close> on the frame of recent movements.\<close>

definition get_summary_metrics :: "movement_row list \<Rightarrow> summary_metrics" where
  "get_summary_metrics df =
     (if df = [] then
        \<lparr>total_movements = 0, incoming_count = 0, outgoing_count = 0,
         incoming_items = 0, outgoing_items = 0, net_change = 0\<rparr>
      else
        (let incoming = filter (\<lambda>m. mv_movement_type m = Incoming) df;
             outgoing = filter (\<lambda>m. mv_movement_type m = Outgoing) df
         in \<lparr>total_movements = length df,
             incoming_count = length incoming,
             outgoing_count = length outgoing,
             incoming_items = (if incoming \<noteq> [] then sum_list (map mv_quantity incoming) else 0),
             outgoing_items = (if outgoing \<noteq> [] then sum_list (map mv_quantity outgoing) else 0),
             net_change =
               (if incoming \<noteq> [] then sum_list (map mv_quantity incoming) else 0) -
               (if outgoing \<noteq> [] then sum_list (map mv_quantity outgoing) else 0)\<rparr>))"

section \<open>The in-memory dataset (dashboard.py)\<close>

text \<open>
  \<open>df\<close> is the merge of the \<open>Inventory\<close> and \<open>Products\<close> tables on
  \<open>product_name\<close>: one row per inventory record. A date is the triple (year, month, day);
  the order on triples is the order of the calendar. The derived columns the charts read
  are functions of the row.
\<close>

type_synonym date = "nat \<times> nat \<times> nat"

record row =
  row_id :: nat
  product_name :: string
  category :: string
  date :: date
  initial_count :: int
  final_count :: int
  instock_items :: int

definition year :: "row \<Rightarrow> nat" where
  "year r = fst (date r)"

definition month :: "row \<Rightarrow> nat" where
  "month r = fst (snd (date r))"

text \<open>
  \<open>month_year\<close> is the string \<open>strftime('%Y-%m')\<close> in the source; the pair (year, month)
  carries the same information and, for the four-digit years a pandas timestamp can hold,
  the same order.
\<close>

definition month_year :: "row \<Rightarrow> nat \<times> nat" where
  "month_year r = (year r, month r)"

definition quarter :: "row \<Rightarrow> nat" where
  "quarter r = (month r - 1) div 3 + 1"

definition season :: "row \<Rightarrow> string" where
  "season r =
     (if month r \<in> {3, 4, 5} then ''Spring''
      else if month r \<in> {6, 7, 8} then ''Summer''
      else if month r \<in> {9, 10, 11} then ''Fall''
      else ''Winter'')"

definition variance :: "row \<Rightarrow> int" where
  "variance r = final_count r - initial_count r"

subsection \<open>pandas helpers\<close>

text \<open>
  \<open>groupby\<close> with the default \<open>sort=True\<close>: one group per distinct key, the keys in
  ascending order, the rows of a group in their order in the frame.
\<close>

definition groupby :: "('a \<Rightarrow> 'k::linorder) \<Rightarrow> 'a list \<Rightarrow> ('k \<times> 'a list) list" where
  "groupby key rows =
     map (\<lambda>k. (k, filter (\<lambda>r. key r = k) rows)) (sort (remdups (map key rows)))"

text \<open>\<open>Series.unique()\<close>: the distinct values in the order of their first appearance.\<close>

definition unique :: "'a list \<Rightarrow> 'a list" where
  "unique xs = rev (remdups (rev xs))"

text \<open>
  \<open>sort_values(by, ascending=False)\<close>: pandas reverses the column, sorts the reversed
  column in ascending order and reverses the outcome, so that with a stable sort rows with
  equal keys keep the order they had. numpy's default sort is an insertion sort, which is
  stable, on the short frames used here; on long frames numpy leaves the order of equal
  keys open, and nothing below depends on it.
\<close>

definition sort_values_desc :: "('a \<Rightarrow> 'k::linorder) \<Rightarrow> 'a list \<Rightarrow> 'a list" where
  "sort_values_desc key xs = rev (sort_key key (rev xs))"

text \<open>
  The mean of a column of integers is a float in pandas; it is modelled by the exact
  quotient. Every group of a \<open>groupby\<close> has a row, so the divisor is positive.
\<close>

definition mean :: "int list \<Rightarrow> rat" where
  "mean xs = of_int (sum_list xs) / of_nat (length xs)"

subsection \<open>Floats with the IEEE special values\<close>

text \<open>
  pandas divides columns as IEEE doubles without raising: a non-zero value divided by zero
  is an infinity, zero divided by zero is NaN, and NaN marks a missing value. Finite
  doubles are modelled by the rationals they approximate (the rounding error of the
  hardware is not modelled); the sign of zero is not modelled, the divisors below are
  sums of integers and so never the negative zero.
\<close>

datatype pyfloat = Finite rat | PosInf | NegInf | NaN

fun fsub :: "pyfloat \<Rightarrow> pyfloat \<Rightarrow> pyfloat" where
  "fsub NaN _ = NaN"
| "fsub _ NaN = NaN"
| "fsub (Finite a) (Finite b) = Finite (a - b)"
| "fsub (Finite a) PosInf = NegInf"
| "fsub (Finite a) NegInf = PosInf"
| "fsub PosInf PosInf = NaN"
| "fsub PosInf _ = PosInf"
| "fsub NegInf NegInf = NaN"
| "fsub NegInf _ = NegInf"

fun fdiv :: "pyfloat \<Rightarrow> pyfloat \<Rightarrow> pyfloat" where
  "fdiv NaN _ = NaN"
| "fdiv _ NaN = NaN"
| "fdiv (Finite a) (Finite b) =
     (if b = 0 then (if 0 < a then PosInf else if a < 0 then NegInf else NaN)
      else Finite (a / b))"
| "fdiv (Finite a) _ = Finite 0"
| "fdiv PosInf (Finite b) = (if b < 0 then NegInf else PosInf)"
| "fdiv NegInf (Finite b) = (if b < 0 then PosInf else NegInf)"
| "fdiv _ _ = NaN"

fun fmul :: "pyfloat \<Rightarrow> pyfloat \<Rightarrow> pyfloat" where
  "fmul NaN _ = NaN"
| "fmul _ NaN = NaN"
| "fmul (Finite a) (Finite b) = Finite (a * b)"
| "fmul (Finite a) PosInf = (if 0 < a then PosInf else if a < 0 then NegInf else NaN)"
| "fmul (Finite a) NegInf = (if 0 < a then NegInf else if a < 0 then PosInf else NaN)"
| "fmul PosInf (Finite b) = (if 0 < b then PosInf else if b < 0 then NegInf else NaN)"
| "fmul NegInf (Finite b) = (if 0 < b then NegInf else if b < 0 then PosInf else NaN)"
| "fmul PosInf PosInf = PosInf"
| "fmul PosInf NegInf = NegInf"
| "fmul NegInf PosInf = NegInf"
| "fmul NegInf NegInf = PosInf"

text \<open>\<open>x >= 0\<close> on floats: false for NaN.\<close>

fun fge0 :: "pyfloat \<Rightarrow> bool" where
  "fge0 (Finite a) = (0 \<le> a)"
| "fge0 PosInf = True"
| "fge0 NegInf = False"
| "fge0 NaN = False"

text \<open>\<open>round(n)\<close> of numpy: to \<open>n\<close> decimals, a tie to the even neighbour.\<close>

definition round_half_even :: "rat \<Rightarrow> int" where
  "round_half_even x =
     (let f = \<lfloor>x\<rfloor>; d = x - of_int f in
      if d < 1 / 2 then f else if 1 / 2 < d then f + 1 else if even f then f else f + 1)"

fun fround :: "nat \<Rightarrow> pyfloat \<Rightarrow> pyfloat" where
  "fround n (Finite a) = Finite (of_int (round_half_even (a * 10 ^ n)) / 10 ^ n)"
| "fround n x = x"

definition is_nan :: "pyfloat \<Rightarrow> bool" where
  "is_nan x = (x = NaN)"

definition is_inf :: "pyfloat \<Rightarrow> bool" where
  "is_inf x = (x = PosInf \<or> x = NegInf)"

text \<open>\<open>Series.shift(1)\<close>: every value moves one row down, the first row gets NaN.\<close>

definition shift1 :: "pyfloat list \<Rightarrow> pyfloat list" where
  "shift1 xs = (if xs = [] then [] else NaN # butlast xs)"

subsection \<open>Formatting dates\<close>

function string_of_nat :: "nat \<Rightarrow> string" where
  "string_of_nat n =
     (if n < 10 then [''0123456789'' ! n]
      else string_of_nat (n div 10) @ [''0123456789'' ! (n mod 10)])"
  by pat_completeness auto
termination
  by (relation "measure (\<lambda>n. n)") auto

definition zfill :: "nat \<Rightarrow> string \<Rightarrow> string" where
  "zfill w s = replicate (w - length s) (CHR ''0'') @ s"

text \<open>\<open>strftime('%Y-%m-%d')\<close>.\<close>

definition strftime_ymd :: "date \<Rightarrow> string" where
  "strftime_ymd d =
     (case d of (y, m, dd) \<Rightarrow>
        zfill 4 (string_of_nat y) @ ''-'' @ zfill 2 (string_of_nat m) @ ''-'' @
        zfill 2 (string_of_nat dd))"

subsection \<open>The summaries behind the charts\<close>

text \<open>
  Each \<open>create_*\<close> function of the source groups the filtered frame and hands the
  resulting table to a plotting call. The model returns the table the figure is drawn
  from; colours, titles and layout are left out. Standard deviations, which the source
  computes in one of the tables and never plots, are left out as well.
\<close>

text \<open>Per product: name, mean initial count, mean final count, total change, mean change.\<close>

definition create_product_performance_chart ::
    "row list \<Rightarrow> (string \<times> rat \<times> rat \<times> int \<times> rat) list" where
  "create_product_performance_chart filtered_df =
     map (\<lambda>(name, g).
            (name, mean (map initial_count g), mean (map final_count g),
             sum_list (map variance g), mean (map variance g)))
         (groupby product_name filtered_df)"

text \<open>Per product: the total change, the slices of the pie.\<close>

definition create_product_distribution_chart :: "row list \<Rightarrow> (string \<times> int) list" where
  "create_product_distribution_chart filtered_df =
     map (\<lambda>(name, g). (name, sum_list (map variance g))) (groupby product_name filtered_df)"

text \<open>Per product: mean initial count, mean final count, total change.\<close>

definition create_value_analysis_chart :: "row list \<Rightarrow> (string \<times> rat \<times> rat \<times> int) list" where
  "create_value_analysis_chart filtered_df =
     map (\<lambda>(name, g).
            (name, mean (map initial_count g), mean (map final_count g),
             sum_list (map variance g)))
         (groupby product_name filtered_df)"

text \<open>
  The mean final count per (bucket, product). The bucket is the month for \<open>'month'\<close>,
  the quarter for \<open>'quarter'\<close> and the year for every other value of \<open>time_period\<close>.
\<close>

datatype time_series =
    Monthly "(((nat \<times> nat) \<times> string) \<times> rat) list"
  | Quarterly "((nat \<times> string) \<times> rat) list"
  | Yearly "((nat \<times> string) \<times> rat) list"

definition mean_final_by :: "(row \<Rightarrow> 'k::linorder) \<Rightarrow> row list \<Rightarrow> (('k \<times> string) \<times> rat) list" where
  "mean_final_by group_col df =
     map (\<lambda>(k, g). (k, mean (map final_count g)))
         (groupby (\<lambda>r. (group_col r, product_name r)) df)"

definition create_time_series_chart :: "row list \<Rightarrow> string \<Rightarrow> time_series" where
  "create_time_series_chart df time_period =
     (if time_period = ''month'' then Monthly (mean_final_by month_year df)
      else if time_period = ''quarter'' then Quarterly (mean_final_by quarter df)
      else Yearly (mean_final_by year df))"

text \<open>
  The total initial count per (season, product), the seasons then put in the order
  Winter, Spring, Summer, Fall.
\<close>

definition season_order :: "string list" where
  "season_order = [''Winter'', ''Spring'', ''Summer'', ''Fall'']"

definition season_rank :: "string \<Rightarrow> nat" where
  "season_rank s = length (takeWhile (\<lambda>t. t \<noteq> s) season_order)"

definition create_seasonal_chart :: "row list \<Rightarrow> ((string \<times> string) \<times> int) list" where
  "create_seasonal_chart filtered_df =
     (let season_data =
            map (\<lambda>(k, g). (k, sum_list (map initial_count g)))
                (groupby (\<lambda>r. (season r, product_name r)) filtered_df)
      in sort_key (\<lambda>(k, total). season_rank (fst k)) season_data)"

text \<open>
  Month-over-month growth of the total initial count. A row of the result is the month,
  the percentage and the colour of its bar. \<open>dropna\<close> removes every row that holds a
  NaN: the first month, which has no previous month, and any month whose percentage is
  NaN.
\<close>

definition pct_change_of :: "int \<Rightarrow> pyfloat \<Rightarrow> pyfloat" where
  "pct_change_of current previous =
     fround 1 (fmul (fdiv (fsub (Finite (of_int current)) previous) previous) (Finite 100))"

definition growth_colour :: "pyfloat \<Rightarrow> string" where
  "growth_colour x = (if fge0 x then ''#4cc9f0'' else ''#f72585'')"

definition monthly_totals :: "row list \<Rightarrow> ((nat \<times> nat) \<times> int) list" where
  "monthly_totals filtered_df =
     sort_key fst
       (map (\<lambda>(k, g). (k, sum_list (map initial_count g))) (groupby month_year filtered_df))"

definition create_growth_chart :: "row list \<Rightarrow> ((nat \<times> nat) \<times> pyfloat \<times> string) list" where
  "create_growth_chart filtered_df =
     (let monthly_data = monthly_totals filtered_df;
          previous = shift1 (map (\<lambda>(k, total). Finite (of_int total)) monthly_data);
          with_pct = map (\<lambda>((k, total), p). (k, p, pct_change_of total p))
                         (zip monthly_data previous);
          kept = filter (\<lambda>(k, p, x). \<not> is_nan p \<and> \<not> is_nan x) with_pct
      in map (\<lambda>(k, p, x). (k, x, growth_colour x)) kept)"

text \<open>
  The stock shown on a product card and in the data table is looked up in the
  \<open>Products\<close> table by name.
\<close>

definition product_instock :: "product_row list \<Rightarrow> string \<Rightarrow> int option" where
  "product_instock products_df name = map_of (map (\<lambda>p. (p_name p, p_instock_items p)) products_df) name"

text \<open>
  One card per product: name, current stock (0 when the product has no row), mean initial
  count, mean final count, mean change, total change.
\<close>

definition create_product_metrics_cards ::
    "product_row list \<Rightarrow> row list \<Rightarrow> (string \<times> int \<times> rat \<times> rat \<times> rat \<times> int) list" where
  "create_product_metrics_cards products_df filtered_df =
     map (\<lambda>(name, g).
            (name,
             (case product_instock products_df name of None \<Rightarrow> 0 | Some s \<Rightarrow> s),
             mean (map initial_count g), mean (map final_count g),
             mean (map variance g), sum_list (map variance g)))
         (groupby product_name filtered_df)"

text \<open>The box plot draws the initial count of every row, by product.\<close>

definition create_transaction_size_chart :: "row list \<Rightarrow> (string \<times> int) list" where
  "create_transaction_size_chart filtered_df =
     map (\<lambda>r. (product_name r, initial_count r)) filtered_df"

text \<open>
  The busiest days: the number of rows per (date, product), the ten largest counts first.
\<close>

definition transaction_counts :: "row list \<Rightarrow> ((date \<times> string) \<times> nat) list" where
  "transaction_counts filtered_df =
     map (\<lambda>(k, g). (k, length g)) (groupby (\<lambda>r. (date r, product_name r)) filtered_df)"

definition create_busy_days_chart :: "row list \<Rightarrow> ((date \<times> string) \<times> nat) list" where
  "create_busy_days_chart filtered_df =
     (let busy_days = transaction_counts filtered_df;
          top_days = take 10 (sort_values_desc snd busy_days)
      in top_days)"

text \<open>
  The records of the data table: id, product, category, formatted date, initial count,
  final count, and the stock looked up by name (missing when the product has no row).
\<close>

definition prepare_table_data ::
    "product_row list \<Rightarrow> row list \<Rightarrow>
     (nat \<times> string \<times> string \<times> string \<times> int \<times> int \<times> int option) list" where
  "prepare_table_data products_df filtered_df =
     map (\<lambda>r. (row_id r, product_name r, category r, strftime_ymd (date r),
               initial_count r, final_count r, product_instock products_df (product_name r)))
         filtered_df"

subsection \<open>Filters and the tab callback\<close>

text \<open>
  The values a dropdown hands to a callback: \<open>None\<close>, a string or an integer. \<open>int()\<close>
  on a string is Python's own parser and is a parameter of the model, \<open>None\<close> where it
  raises \<open>ValueError\<close>.
\<close>

datatype pyval = PNone | PStr string | PInt int

datatype py_error = ValueError | TypeError | AttributeError

fun truthy :: "pyval \<Rightarrow> bool" where
  "truthy PNone = False"
| "truthy (PStr s) = (s \<noteq> [])"
| "truthy (PInt n) = (n \<noteq> 0)"

fun py_int :: "(string \<Rightarrow> int option) \<Rightarrow> pyval \<Rightarrow> py_error + int" where
  "py_int int_of_str PNone = Inl TypeError"
| "py_int int_of_str (PInt n) = Inr n"
| "py_int int_of_str (PStr s) = (case int_of_str s of None \<Rightarrow> Inl ValueError | Some n \<Rightarrow> Inr n)"

text \<open>The three filter steps of \<open>render_tab_content\<close>, each with its own guard.\<close>

definition filter_products :: "string list option \<Rightarrow> row list \<Rightarrow> row list" where
  "filter_products selected_products filtered_df =
     (case selected_products of
        None \<Rightarrow> filtered_df
      | Some ps \<Rightarrow>
          if 0 < length ps then filter (\<lambda>r. product_name r \<in> set ps) filtered_df
          else filtered_df)"

definition filter_year ::
    "(string \<Rightarrow> int option) \<Rightarrow> pyval \<Rightarrow> row list \<Rightarrow> py_error + row list" where
  "filter_year int_of_str selected_year filtered_df =
     (if truthy selected_year \<and> selected_year \<noteq> PStr ''all'' then
        (case py_int int_of_str selected_year of
           Inl e \<Rightarrow> Inl e
         | Inr y \<Rightarrow> Inr (filter (\<lambda>r. int (year r) = y) filtered_df))
      else Inr filtered_df)"

definition filter_category :: "string option \<Rightarrow> row list \<Rightarrow> row list" where
  "filter_category selected_category filtered_df =
     (case selected_category of
        None \<Rightarrow> filtered_df
      | Some c \<Rightarrow>
          if c \<noteq> [] \<and> c \<noteq> ''all'' then filter (\<lambda>r. category r = c) filtered_df
          else filtered_df)"

definition apply_filters ::
    "(string \<Rightarrow> int option) \<Rightarrow> string list option \<Rightarrow> pyval \<Rightarrow> string option \<Rightarrow>
     row list \<Rightarrow> py_error + row list" where
  "apply_filters int_of_str selected_products selected_year selected_category df =
     (case filter_year int_of_str selected_year (filter_products selected_products df) of
        Inl e \<Rightarrow> Inl e
      | Inr filtered_df \<Rightarrow> Inr (filter_category selected_category filtered_df))"

text \<open>
  What the callback returns: the alert for an empty selection, the content of one of the
  four tabs, or the alert for an unknown tab.
\<close>

datatype tab_content =
    NoDataAlert
  | OverviewTab "(string \<times> rat \<times> rat \<times> int \<times> rat) list" "(string \<times> int) list"
      "(string \<times> rat \<times> rat \<times> int) list"
  | TimeTab time_series "((string \<times> string) \<times> int) list"
      "((nat \<times> nat) \<times> pyfloat \<times> string) list"
  | ProductsTab "(string \<times> int \<times> rat \<times> rat \<times> rat \<times> int) list" "(string \<times> int) list"
      "((date \<times> string) \<times> nat) list"
  | DataTab "(nat \<times> string \<times> string \<times> string \<times> int \<times> int \<times> int option) list"
  | InvalidTabAlert

text \<open>
  \<open>render_tab_content\<close>. In the time tab the header calls \<open>time_period.capitalize()\<close>,
  which raises when \<open>time_period\<close> is \<open>None\<close>.
\<close>

definition render_tab_content ::
    "(string \<Rightarrow> int option) \<Rightarrow> product_row list \<Rightarrow> row list \<Rightarrow>
     string \<Rightarrow> string list option \<Rightarrow> pyval \<Rightarrow> string option \<Rightarrow> string option \<Rightarrow>
     py_error + tab_content" where
  "render_tab_content int_of_str products_df df
       active_tab selected_products selected_year time_period selected_category =
     (case apply_filters int_of_str selected_products selected_year selected_category df of
        Inl e \<Rightarrow> Inl e
      | Inr filtered_df \<Rightarrow>
          if filtered_df = [] then Inr NoDataAlert
          else if active_tab = ''tab-overview'' then
            Inr (OverviewTab (create_product_performance_chart filtered_df)
                   (create_product_distribution_chart filtered_df)
                   (create_value_analysis_chart filtered_df))
          else if active_tab = ''tab-time'' then
            (case time_period of
               None \<Rightarrow> Inl AttributeError
             | Some tp \<Rightarrow>
                 Inr (TimeTab (create_time_series_chart filtered_df tp)
                        (create_seasonal_chart filtered_df)
                        (create_growth_chart filtered_df)))
          else if active_tab = ''tab-products'' then
            Inr (ProductsTab (create_product_metrics_cards products_df filtered_df)
                   (create_transaction_size_chart filtered_df)
                   (create_busy_days_chart filtered_df))
          else if active_tab = ''tab-data'' then
            Inr (DataTab (prepare_table_data products_df filtered_df))
          else Inr InvalidTabAlert)"

subsection \<open>The change of the latest day (module level)\<close>

text \<open>
  \<open>inventory_change\<close> compares the total final count of the latest date with that of
  the day before. This division is guarded: the result is 0 when the previous total is 0.
  The latest date of an empty frame is \<open>NaT\<close>, which no date equals, so both totals
  are 0 there.
\<close>

definition is_leap :: "nat \<Rightarrow> bool" where
  "is_leap y = (if y mod 4 = 0 then (if y mod 100 = 0 then y mod 400 = 0 else True) else False)"

definition days_in_month :: "nat \<Rightarrow> nat \<Rightarrow> nat" where
  "days_in_month y m =
     (if m = 2 then (if is_leap y then 29 else 28)
      else if m \<in> {4, 6, 9, 11} then 30 else 31)"

text \<open>\<open>d - timedelta(days=1)\<close>.\<close>

definition previous_day :: "date \<Rightarrow> date" where
  "previous_day d =
     (case d of (y, m, dd) \<Rightarrow>
        if 1 < dd then (y, m, dd - 1)
        else if 1 < m then (y, m - 1, days_in_month y (m - 1))
        else (y - 1, 12, 31))"

definition final_by_product_on :: "row list \<Rightarrow> date \<Rightarrow> (string \<times> int) list" where
  "final_by_product_on df d =
     map (\<lambda>(name, g). (name, sum_list (map final_count g)))
         (groupby product_name (filter (\<lambda>r. date r = d) df))"

definition inventory_change :: "row list \<Rightarrow> pyfloat" where
  "inventory_change df =
     (case map date df of
        [] \<Rightarrow> Finite 0
      | d # ds \<Rightarrow>
          (let latest_date = fold max ds d;
               current_inventory = final_by_product_on df latest_date;
               previous_date = previous_day latest_date;
               previous_inventory = final_by_product_on df previous_date;
               current_sum = sum_list (map snd current_inventory);
               previous_sum = sum_list (map snd previous_inventory)
           in if previous_sum \<noteq> 0 then
                fround 2 (fmul (fdiv (Finite (of_int (current_sum - previous_sum)))
                                     (Finite (of_int previous_sum)))
                               (Finite 100))
              else Finite 0))"

section \<open>The assistant: store queries, context and conversation (dashboard.py)\<close>

text \<open>
  What lies outside the program is a parameter of the model: the SQLite store (the result
  of running a query, or the exception it raises; the tables and their columns),
  \<open>json.dumps(_, indent=2)\<close>, the generative model (the text of its reply, or the
  exception raised by the call or by reading the reply) and Python's \<open>int()\<close> on
  strings. An exception is the pair of \<open>str(e)\<close> and \<open>traceback.format_exc()\<close>.
  A float among the values of a row is carried by its \<open>repr\<close>, which identifies the double.
\<close>

type_synonym exn = "string \<times> string"

datatype sql_value = SqlNull | SqlInteger int | SqlReal string | SqlText string

type_synonym record_row = "(string \<times> sql_value) list"

record env =
  read_sql_query :: "string \<Rightarrow> sql_value list option \<Rightarrow> exn + record_row list"
  table_info :: "exn + (string \<times> string list) list"
  json_dumps :: "record_row list \<Rightarrow> string"
  generate_content :: "string \<Rightarrow> exn + string"
  int_of_str :: "string \<Rightarrow> int option"

text \<open>What the program prints, one constructor per group of \<open>print\<close> calls.\<close>

datatype log_line =
    SqlQueryError string string string
  | SchemaError string
  | FilterError py_error
  | GeminiApiError string string

text \<open>
  \<open>run_sql_query(query, params=None)\<close>: the rows as dictionaries, the empty list for no
  row, and a single dictionary with the key \<open>error\<close> when anything raises. The second
  component is what the call prints.
\<close>

definition run_sql_query ::
    "env \<Rightarrow> string \<Rightarrow> sql_value list option \<Rightarrow> record_row list \<times> log_line list" where
  "run_sql_query e query params =
     (case (if params \<noteq> None \<and> params \<noteq> Some [] then read_sql_query e query params
            else read_sql_query e query None) of
        Inr results \<Rightarrow> (if 0 < length results then results else [], [])
      | Inl ex \<Rightarrow>
          ([[(''error'', SqlText (fst ex))]], [SqlQueryError (fst ex) query (snd ex)]))"

text \<open>\<open>get_database_schema()\<close>: table names with their columns, empty when anything raises.\<close>

definition get_database_schema :: "env \<Rightarrow> (string \<times> string list) list \<times> log_line list" where
  "get_database_schema e =
     (case table_info e of
        Inr tables \<Rightarrow> (tables, [])
      | Inl ex \<Rightarrow> ([], [SchemaError (fst ex)]))"

text \<open>The catalog of queries, in the order of the dictionary literal.\<close>

definition data_queries :: "(string \<times> string) list" where
  "data_queries =
     [(''max_initial_count'',
       ''SELECT product_name, MAX(initial_count) as max_initial_count FROM Invento'' @
       ''ry''),
      (''min_initial_count'',
       ''SELECT product_name, MIN(initial_count) as min_initial_count FROM Invento'' @
       ''ry''),
      (''max_final_count'',
       ''SELECT product_name, MAX(final_count) as max_final_count FROM Inventory''),
      (''min_final_count'',
       ''SELECT product_name, MIN(final_count) as min_final_count FROM Inventory''),
      (''avg_initial_count'',
       ''SELECT product_name, AVG(initial_count) as avg_initial_count FROM Invento'' @
       ''ry GROUP BY product_name''),
      (''avg_final_count'',
       ''SELECT product_name, AVG(final_count) as avg_final_count FROM Inventory G'' @
       ''ROUP BY product_name''),
      (''top_products_by_change'',
       ''\<newline>            SELECT p.product_name, p.category, '' @
       ''\<newline>            SUM(i.final_count - i.initial_count) as total_change '' @
       ''\<newline>            FROM Products p'' @
       ''\<newline>            JOIN Inventory i ON p.product_name = i.product_name'' @
       ''\<newline>            GROUP BY p.product_name'' @
       ''\<newline>            ORDER BY total_change DESC'' @
       ''\<newline>            LIMIT 5'' @
       ''\<newline>        ''),
      (''category_performance'',
       ''\<newline>            SELECT p.category, '' @
       ''\<newline>            SUM(i.final_count - i.initial_count) as total_change,'' @
       ''\<newline>            AVG(i.final_count - i.initial_count) as avg_change'' @
       ''\<newline>            FROM Products p'' @
       ''\<newline>            JOIN Inventory i ON p.product_name = i.product_name'' @
       ''\<newline>            GROUP BY p.category'' @
       ''\<newline>            ORDER BY total_change DESC'' @
       ''\<newline>        ''),
      (''trends_over_time'',
       ''\<newline>            SELECT date, SUM(final_count - initial_count) as daily_chang'' @
       ''e'' @
       ''\<newline>            FROM Inventory'' @
       ''\<newline>            GROUP BY date'' @
       ''\<newline>            ORDER BY date DESC'' @
       ''\<newline>            LIMIT 10'' @
       ''\<newline>        ''),
      (''product_counts_by_date'',
       ''SELECT product_name, date, initial_count, final_count FROM Inventory ORDE'' @
       ''R BY date DESC'')]"

text \<open>\<open>sep.join(xs)\<close>.\<close>

fun join :: "string \<Rightarrow> string list \<Rightarrow> string" where
  "join sep [] = []"
| "join sep [x] = x"
| "join sep (x # y # ys) = x @ sep @ join sep (y # ys)"

text \<open>The labeled block of one query result.\<close>

definition labeled_block :: "env \<Rightarrow> string \<Rightarrow> record_row list \<Rightarrow> string" where
  "labeled_block e key result =
     ''\<newline>\<newline>['' @ key @ '']\<newline>'' @ json_dumps e result"

text \<open>
  The loop over the catalog: every query is run, and its block is appended when the
  result is a non-empty list. The accumulator is the text so far and the lines printed
  so far.
\<close>

fun run_catalog ::
    "env \<Rightarrow> (string \<times> string) list \<Rightarrow> string \<times> log_line list \<Rightarrow> string \<times> log_line list" where
  "run_catalog e [] acc = acc"
| "run_catalog e ((key, query) # rest) (all_data_context, printed) =
     (case run_sql_query e query None of
        (result, lines) \<Rightarrow>
          run_catalog e rest
            (if result \<noteq> [] \<and> 0 < length result
             then all_data_context @ labeled_block e key result
             else all_data_context,
             printed @ lines))"

definition schema_info_of :: "(string \<times> string list) list \<Rightarrow> string" where
  "schema_info_of db_schema =
     ''Database tables: '' @ join '', '' (map fst db_schema) @ ''. '' @
     concat (map (\<lambda>(table, columns).
                    ''Table '' @ [CHR 0x27] @ table @ [CHR 0x27] @ '' has columns: '' @
                    join '', '' columns @ ''. '')
                 db_schema)"

text \<open>
  The description of the filtered frame. The least and the greatest date of an empty
  frame are \<open>NaT\<close>, whose \<open>strftime\<close> raises \<open>ValueError\<close>.
\<close>

definition db_context_of :: "string \<Rightarrow> row list \<Rightarrow> py_error + string" where
  "db_context_of schema_info filtered_df =
     (case map date filtered_df of
        [] \<Rightarrow> Inl ValueError
      | d # ds \<Rightarrow>
          Inr (schema_info @
               ''\<newline>'' @
     ''\<newline>Dataset has '' @
               string_of_nat (length (unique (map product_name filtered_df))) @
               '' products in categories: '' @
               join '', '' (unique (map category filtered_df)) @
               ''. Date range: '' @
               strftime_ymd (fold min ds d) @
               '' to '' @
               strftime_ymd (fold max ds d) @
               ''. Products include: '' @
               join '', '' (take 5 (unique (map product_name filtered_df)))))"

definition prompt_of :: "string \<Rightarrow> string \<Rightarrow> string \<Rightarrow> string" where
  "prompt_of db_context all_data_context user_input =
     ''You are an analytics assistant for Art & Decor inventory.'' @
     ''\<newline>'' @
     ''\<newline>You have live access to the latest inventory data via the query results pr'' @
     ''ovided below. '' @
     ''\<newline>You do not have direct SQL access, but you always see up-to-date data.'' @
     ''\<newline>'' @
     ''\<newline>Database context:'' @
     ''\<newline>'' @
     db_context @
     ''\<newline>'' @
     all_data_context @
     ''\<newline>'' @
     ''\<newline>Question: '' @
     user_input @
     ''\<newline>'' @
     ''\<newline>Provide a concise, direct answer using the data provided. If the answer is'' @
     '' not in the data, say so.''"

definition fallback_response :: string where
  "fallback_response =
     ''I encountered an error processing your request. Please try a more specific '' @
     ''question about your inventory data.''"

text \<open>
  The filter of the chat callback. Unlike the tab callback it has no guard for missing
  values: \<open>isin(None)\<close> and \<open>int(None)\<close> raise \<open>TypeError\<close>, an unparsable year
  raises \<open>ValueError\<close>, and the callback then falls back to the whole frame.
\<close>

definition chat_filter ::
    "env \<Rightarrow> row list \<Rightarrow> string list option \<Rightarrow> pyval \<Rightarrow> string option \<Rightarrow>
     py_error + row list" where
  "chat_filter e df selected_products selected_year selected_category =
     (case selected_products of
        None \<Rightarrow> Inl TypeError
      | Some ps \<Rightarrow>
          (case (if selected_year \<noteq> PStr ''all'' then
                   (case py_int (int_of_str e) selected_year of
                      Inl err \<Rightarrow> Inl err
                    | Inr y \<Rightarrow>
                        Inr (filter (\<lambda>r. int (year r) = y)
                               (filter (\<lambda>r. product_name r \<in> set ps) df)))
                 else Inr (filter (\<lambda>r. product_name r \<in> set ps) df)) of
             Inl err \<Rightarrow> Inl err
           | Inr filtered_df \<Rightarrow>
               Inr (if selected_category \<noteq> Some ''all''
                    then filter (\<lambda>r. Some (category r) = selected_category) filtered_df
                    else filtered_df)))"

definition chat_filtered_df ::
    "env \<Rightarrow> row list \<Rightarrow> string list option \<Rightarrow> pyval \<Rightarrow> string option \<Rightarrow>
     row list \<times> log_line list" where
  "chat_filtered_df e df selected_products selected_year selected_category =
     (case chat_filter e df selected_products selected_year selected_category of
        Inr filtered_df \<Rightarrow> (filtered_df, [])
      | Inl err \<Rightarrow> (df, [FilterError err]))"

subsection \<open>Conversation history\<close>

record message =
  sender :: string
  message_text :: string

text \<open>
  The \<open>chat-history\<close> store holds \<open>None\<close>, a dictionary without the key
  \<open>messages\<close>, or a dictionary with the list of messages.
\<close>

datatype history = NoHistory | NoMessagesKey | Messages "message list"

fun messages_of :: "history \<Rightarrow> message list" where
  "messages_of NoHistory = []"
| "messages_of NoMessagesKey = []"
| "messages_of (Messages ms) = ms"

text \<open>Python's \<open>not x\<close> for the text of the input box and for a click counter.\<close>

fun no_text :: "string option \<Rightarrow> bool" where
  "no_text None = True"
| "no_text (Some s) = (s = [])"

fun no_clicks :: "nat option \<Rightarrow> bool" where
  "no_clicks None = True"
| "no_clicks (Some n) = (n = 0)"

datatype callback_error = PreventUpdate | Unhandled py_error

text \<open>
  The reply of the model, or the fixed fallback text with the printed error when the call
  raises.
\<close>

definition ai_response_of :: "env \<Rightarrow> string \<Rightarrow> string \<times> log_line list" where
  "ai_response_of e prompt =
     (case generate_content e prompt of
        Inr reply \<Rightarrow> (reply, [])
      | Inl ex \<Rightarrow> (fallback_response, [GeminiApiError (fst ex) (snd ex)]))"

text \<open>
  The prompt of a submission: filter, run the catalog, read the schema, describe the
  frame. The second component is what has been printed up to that point.
\<close>

definition build_prompt ::
    "env \<Rightarrow> row list \<Rightarrow> string \<Rightarrow> string list option \<Rightarrow> pyval \<Rightarrow> string option \<Rightarrow>
     (py_error + string) \<times> log_line list" where
  "build_prompt e df user_input selected_products selected_year selected_category =
     (case chat_filtered_df e df selected_products selected_year selected_category of
        (filtered_df, printed0) \<Rightarrow>
     (case run_catalog e data_queries ([], printed0) of
        (all_data_context, printed1) \<Rightarrow>
     (case get_database_schema e of
        (db_schema, printed2) \<Rightarrow>
     (case db_context_of (schema_info_of db_schema) filtered_df of
        Inl err \<Rightarrow> (Inl err, printed1 @ printed2)
      | Inr db_context \<Rightarrow>
          (Inr (prompt_of db_context all_data_context user_input), printed1 @ printed2)))))"

text \<open>
  \<open>process_user_message\<close>. The result is the history handed back to the store, or the
  exception that ends the callback, together with what the callback printed. The rendered
  list of messages, a function of the returned history alone, and the two emptied
  outputs are left out.
\<close>

definition process_user_message ::
    "env \<Rightarrow> row list \<Rightarrow> nat option \<Rightarrow> nat option \<Rightarrow> string option \<Rightarrow> history \<Rightarrow>
     string list option \<Rightarrow> pyval \<Rightarrow> string option \<Rightarrow>
     (callback_error + history) \<times> log_line list" where
  "process_user_message e df send_clicks enter_clicks user_input history
       selected_products selected_year selected_category =
     (case user_input of
        None \<Rightarrow> (Inl PreventUpdate, [])
      | Some input_text \<Rightarrow>
          if no_text user_input \<or> (no_clicks send_clicks \<and> no_clicks enter_clicks)
          then (Inl PreventUpdate, [])
          else
            (let with_user =
                   messages_of history @ [\<lparr>sender = ''user'', message_text = input_text\<rparr>]
             in case build_prompt e df input_text selected_products selected_year
                       selected_category of
                  (Inl err, printed) \<Rightarrow> (Inl (Unhandled err), printed)
                | (Inr prompt, printed) \<Rightarrow>
                    (case ai_response_of e prompt of
                       (ai_response, lines) \<Rightarrow>
                         (Inr (Messages (with_user @ [\<lparr>sender = ''ai'', message_text = ai_response\<rparr>])),
                          printed @ lines))))"

text \<open>
  A submission as the browser sends it: the state of the outside world at that moment and
  the inputs and states of the callback. The store keeps its value when the callback
  raises, \<open>PreventUpdate\<close> included, and takes the returned history otherwise.
\<close>

record submission =
  world :: env
  send_clicks :: "nat option"
  enter_clicks :: "nat option"
  user_input :: "string option"
  selected_products :: "string list option"
  selected_year :: pyval
  selected_category :: "string option"

definition run_callback :: "row list \<Rightarrow> submission \<Rightarrow> history \<Rightarrow> (callback_error + history) \<times> log_line list" where
  "run_callback df s h =
     process_user_message (world s) df (send_clicks s) (enter_clicks s) (user_input s) h
       (selected_products s) (selected_year s) (selected_category s)"

definition submit :: "row list \<Rightarrow> submission \<Rightarrow> history \<Rightarrow> history" where
  "submit df s h = (case fst (run_callback df s h) of Inl err \<Rightarrow> h | Inr h' \<Rightarrow> h')"

section \<open>Library functions and data for the examples\<close>

text \<open>
  The closed examples below need a concrete world. \<open>py_json_dumps\<close> follows
  \<open>json.dumps(rows, indent=2)\<close> on a list of dictionaries (the default
  \<open>ensure_ascii\<close> escapes, characters taken as code points below 256), and
  \<open>py_int_of_str\<close> follows \<open>int(s)\<close> on ASCII text: surrounding whitespace, an
  optional sign, decimal digits with single underscores between them.
\<close>

definition json_escape_char :: "char \<Rightarrow> string" where
  "json_escape_char c =
     (if c = CHR 0x22 then [CHR 0x5C, CHR 0x22]
      else if c = CHR 0x5C then [CHR 0x5C, CHR 0x5C]
      else if c = CHR 0x0A then [CHR 0x5C, CHR ''n'']
      else if c = CHR 0x0D then [CHR 0x5C, CHR ''r'']
      else if c = CHR 0x09 then [CHR 0x5C, CHR ''t'']
      else if c = CHR 0x08 then [CHR 0x5C, CHR ''b'']
      else if c = CHR 0x0C then [CHR 0x5C, CHR ''f'']
      else if 32 \<le> (of_char c :: nat) \<and> (of_char c :: nat) \<le> 126 then [c]
      else [CHR 0x5C, CHR ''u'', CHR ''0'', CHR ''0'',
            ''0123456789abcdef'' ! ((of_char c :: nat) div 16),
            ''0123456789abcdef'' ! ((of_char c :: nat) mod 16)])"

definition json_string :: "string \<Rightarrow> string" where
  "json_string s = [CHR 0x22] @ concat (map json_escape_char s) @ [CHR 0x22]"

definition string_of_int :: "int \<Rightarrow> string" where
  "string_of_int i = (if i < 0 then ''-'' @ string_of_nat (nat (- i)) else string_of_nat (nat i))"

fun json_value :: "sql_value \<Rightarrow> string" where
  "json_value SqlNull = ''null''"
| "json_value (SqlInteger i) = string_of_int i"
| "json_value (SqlReal r) =
     (if r = ''nan'' then ''NaN'' else if r = ''inf'' then ''Infinity''
      else if r = ''-inf'' then ''-Infinity'' else r)"
| "json_value (SqlText s) = json_string s"

definition json_dict :: "record_row \<Rightarrow> string" where
  "json_dict r =
     (if r = [] then ''{}''
      else ''{\<newline>'' @
           join '',\<newline>''
             (map (\<lambda>(k, v). ''    '' @ json_string k @ '': '' @ json_value v) r) @
           ''\<newline>  }'')"

definition py_json_dumps :: "record_row list \<Rightarrow> string" where
  "py_json_dumps rows =
     (if rows = [] then ''[]''
      else ''[\<newline>'' @ join '',\<newline>'' (map (\<lambda>r. ''  '' @ json_dict r) rows) @
           ''\<newline>]'')"

definition is_py_space :: "char \<Rightarrow> bool" where
  "is_py_space c =
     (c \<in> set [CHR 0x20, CHR 0x09, CHR 0x0A, CHR 0x0B, CHR 0x0C, CHR 0x0D,
                CHR 0x1C, CHR 0x1D, CHR 0x1E, CHR 0x1F])"

definition strip :: "string \<Rightarrow> string" where
  "strip s = rev (dropWhile is_py_space (rev (dropWhile is_py_space s)))"

definition digit_value :: "char \<Rightarrow> nat option" where
  "digit_value c =
     (if 48 \<le> (of_char c :: nat) \<and> (of_char c :: nat) \<le> 57 then Some (of_char c - 48)
      else None)"

fun digits_to_nat :: "string \<Rightarrow> nat \<Rightarrow> nat option" where
  "digits_to_nat [] acc = Some acc"
| "digits_to_nat (c # cs) acc =
     (if c = CHR ''_'' then
        (case cs of
           [] \<Rightarrow> None
         | d # ds \<Rightarrow> if d = CHR ''_'' then None else digits_to_nat cs acc)
      else
        (case digit_value c of
           None \<Rightarrow> None
         | Some v \<Rightarrow> digits_to_nat cs (10 * acc + v)))"

definition unsigned_of_str :: "string \<Rightarrow> nat option" where
  "unsigned_of_str s =
     (case s of
        [] \<Rightarrow> None
      | c # cs \<Rightarrow> if c = CHR ''_'' then None else digits_to_nat s 0)"

definition py_int_of_str :: "string \<Rightarrow> int option" where
  "py_int_of_str s =
     (case strip s of
        [] \<Rightarrow> None
      | c # cs \<Rightarrow>
          if c = CHR ''-'' then map_option (\<lambda>n. - int n) (unsigned_of_str cs)
          else if c = CHR ''+'' then map_option int (unsigned_of_str cs)
          else map_option int (unsigned_of_str (c # cs)))"

text \<open>Two products over the last two days of January 2023.\<close>

definition example_products :: "product_row list" where
  "example_products =
     [\<lparr>p_name = ''Cylindrical Product'', p_category = ''Type A'', p_instock_items = 160\<rparr>,
      \<lparr>p_name = ''Box Product'', p_category = ''Type B'', p_instock_items = 310\<rparr>]"

definition example_df :: "row list" where
  "example_df =
     [\<lparr>row_id = 1, product_name = ''Cylindrical Product'', category = ''Type A'',
       date = (2023, 1, 30), initial_count = 150, final_count = 155, instock_items = 160\<rparr>,
      \<lparr>row_id = 2, product_name = ''Box Product'', category = ''Type B'',
       date = (2023, 1, 30), initial_count = 300, final_count = 290, instock_items = 310\<rparr>,
      \<lparr>row_id = 3, product_name = ''Cylindrical Product'', category = ''Type A'',
       date = (2023, 1, 31), initial_count = 155, final_count = 160, instock_items = 160\<rparr>,
      \<lparr>row_id = 4, product_name = ''Box Product'', category = ''Type B'',
       date = (2023, 1, 31), initial_count = 290, final_count = 310, instock_items = 310\<rparr>]"

text \<open>
  One product whose initial count is 0 in January and February 2023 and 5 in March.
\<close>

definition restocked_df :: "row list" where
  "restocked_df =
     [\<lparr>row_id = 1, product_name = ''Box Product'', category = ''Type B'',
       date = (2023, 1, 15), initial_count = 0, final_count = 0, instock_items = 9\<rparr>,
      \<lparr>row_id = 2, product_name = ''Box Product'', category = ''Type B'',
       date = (2023, 2, 15), initial_count = 0, final_count = 5, instock_items = 9\<rparr>,
      \<lparr>row_id = 3, product_name = ''Box Product'', category = ''Type B'',
       date = (2023, 3, 15), initial_count = 5, final_count = 9, instock_items = 9\<rparr>]"

text \<open>
  A world whose store answers every query with no row and whose model replies; a world
  whose store has lost the \<open>Inventory\<close> table for the first query of the catalog; a
  world whose model is out of quota.
\<close>

definition example_tables :: "(string \<times> string list) list" where
  "example_tables =
     [(''Products'', [''product_name'', ''category'', ''instock_items'']),
      (''Inventory'', [''id'', ''product_name'', ''date'', ''initial_count'', ''final_count''])]"

definition quiet_world :: env where
  "quiet_world =
     \<lparr>read_sql_query = (\<lambda>query params. Inr []),
      table_info = Inr example_tables,
      json_dumps = py_json_dumps,
      generate_content = (\<lambda>prompt. Inr ''There are 2 products.''),
      int_of_str = py_int_of_str\<rparr>"

definition broken_query_world :: env where
  "broken_query_world =
     quiet_world\<lparr>read_sql_query :=
       (\<lambda>query params.
          if query = snd (hd data_queries)
          then Inl (''no such table: Inventory'', ''Traceback (most recent call last)'')
          else Inr [])\<rparr>"


definition greeting :: message where
  "greeting =
     \<lparr>sender = ''ai'',
      message_text = ''Hello! I'' @ [CHR 0x27] @ ''m your AI analytics assistant. '' @
                     ''Ask me anything about your inventory data.''\<rparr>"

definition example_submission :: submission where
  "example_submission =
     \<lparr>world = quiet_world, send_clicks = Some 1, enter_clicks = None,
      user_input = Some ''How many products are there?'',
      selected_products = Some [''Cylindrical Product'', ''Box Product''],
      selected_year = PStr ''all'', selected_category = Some ''all''\<rparr>"

text \<open>The same submission after the user has cleared the product dropdown.\<close>

definition cleared_submission :: submission where
  "cleared_submission = example_submission\<lparr>selected_products := Some []\<rparr>"

section \<open>Notions used to state the properties\<close>

text \<open>
  The order the busiest-day summary is said to have: counts descending, and among equal
  counts the later date first.
\<close>

definition by_count_then_date_desc :: "((date \<times> string) \<times> nat) list \<Rightarrow> bool" where
  "by_count_then_date_desc rows =
     sorted_wrt (\<lambda>a b. snd b < snd a \<or> (snd a = snd b \<and> fst (fst b) \<le> fst (fst a))) rows"

text \<open>
  The context document as the specification describes it: the block of a failed query is
  left out, like the block of a query without rows.
\<close>

definition context_omitting_failures :: "env \<Rightarrow> (string \<times> string) list \<Rightarrow> string" where
  "context_omitting_failures e queries =
     concat (map (\<lambda>(key, query).
                    case read_sql_query e query None of
                      Inl ex \<Rightarrow> []
                    | Inr results \<Rightarrow> if results = [] then [] else labeled_block e key results)
                 queries)"

text \<open>
  The context document the loop builds: the block of a failed query holds the dictionary
  with the error text.
\<close>

definition block_of :: "env \<Rightarrow> string \<times> string \<Rightarrow> string" where
  "block_of e kq =
     (case read_sql_query e (snd kq) None of
        Inl ex \<Rightarrow> labeled_block e (fst kq) [[(''error'', SqlText (fst ex))]]
      | Inr results \<Rightarrow> if results = [] then [] else labeled_block e (fst kq) results)"

text \<open>
  The two messages a submission adds when the callback returns: the question and the
  reply (the text of the model, or the fallback).
\<close>

definition question :: "submission \<Rightarrow> string" where
  "question s = (case user_input s of None \<Rightarrow> [] | Some t \<Rightarrow> t)"

definition reply :: "row list \<Rightarrow> submission \<Rightarrow> string" where
  "reply df s =
     (case fst (build_prompt (world s) df (question s) (selected_products s)
                  (selected_year s) (selected_category s)) of
        Inl err \<Rightarrow> []
      | Inr prompt \<Rightarrow> fst (ai_response_of (world s) prompt))"

definition exchange :: "row list \<Rightarrow> submission \<Rightarrow> message list" where
  "exchange df s =
     [\<lparr>sender = ''user'', message_text = question s\<rparr>,
      \<lparr>sender = ''ai'', message_text = reply df s\<rparr>]"

text \<open>What the run of one catalog query prints.\<close>

definition printed_of :: "env \<Rightarrow> string \<times> string \<Rightarrow> log_line list" where
  "printed_of e kq =
     (case read_sql_query e (snd kq) None of
        Inl ex \<Rightarrow> [SqlQueryError (fst ex) (snd kq) (snd ex)]
      | Inr results \<Rightarrow> [])"

section \<open>Lemmas about the helpers\<close>

lemma length_groupby: "length (groupby key rows) = card (key ` set rows)"
  by (simp add: groupby_def length_remdups_card_conv)

lemma sort_values_desc_sorted:
  "sorted_wrt (\<lambda>a b. key b \<le> key a) (sort_values_desc key xs)"
proof -
  have "sorted (map key (sort_key key (rev xs)))"
    by simp
  then have "sorted_wrt (\<lambda>a b. key a \<le> key b) (sort_key key (rev xs))"
    by (simp add: sorted_wrt_map)
  then show ?thesis
    by (simp add: sort_values_desc_def sorted_wrt_rev)
qed

lemma set_sort_values_desc: "set (sort_values_desc key xs) = set xs"
  by (simp add: sort_values_desc_def)

lemma length_sort_values_desc: "length (sort_values_desc key xs) = length xs"
  by (simp add: sort_values_desc_def)

lemma length_transaction_counts:
  "length (transaction_counts df) = card ((\<lambda>r. (date r, product_name r)) ` set df)"
  by (simp add: transaction_counts_def length_groupby)

lemma transaction_counts_entry:
  assumes "(k, n) \<in> set (transaction_counts df)"
  shows "n = length (filter (\<lambda>r. (date r, product_name r) = k) df) \<and> 1 \<le> n"
proof -
  from assms have k: "k \<in> (\<lambda>r. (date r, product_name r)) ` set df"
    and n: "n = length (filter (\<lambda>r. (date r, product_name r) = k) df)"
    by (auto simp: transaction_counts_def groupby_def)
  from k obtain r where "r \<in> set df" "(date r, product_name r) = k"
    by auto
  then have "filter (\<lambda>r. (date r, product_name r) = k) df \<noteq> []"
    by (auto simp: filter_empty_conv)
  with n show ?thesis
    by (cases "filter (\<lambda>r. (date r, product_name r) = k) df") auto
qed

lemma distinct_transaction_counts: "distinct (map fst (transaction_counts df))"
  by (simp add: transaction_counts_def groupby_def comp_def case_prod_unfold)

text \<open>The guarded division of \<open>inventory_change\<close> is always a finite number.\<close>

lemma inventory_change_finite: "\<not> is_nan (inventory_change df) \<and> \<not> is_inf (inventory_change df)"
  by (simp add: inventory_change_def is_nan_def is_inf_def Let_def split: list.splits)

text \<open>The result of \<open>run_sql_query\<close> without parameters, and the loop over the catalog.\<close>

lemma fst_run_sql_query_None:
  "fst (run_sql_query e query None) =
     (case read_sql_query e query None of
        Inl ex \<Rightarrow> [[(''error'', SqlText (fst ex))]]
      | Inr results \<Rightarrow> results)"
  by (auto simp: run_sql_query_def split: sum.splits)

lemma snd_run_sql_query_None:
  "snd (run_sql_query e query None) =
     (case read_sql_query e query None of
        Inl ex \<Rightarrow> [SqlQueryError (fst ex) query (snd ex)]
      | Inr results \<Rightarrow> [])"
  by (auto simp: run_sql_query_def split: sum.splits)

lemma run_catalog_text:
  "fst (run_catalog e queries (ctx, printed)) = ctx @ concat (map (block_of e) queries)"
proof (induction queries arbitrary: ctx printed)
  case Nil
  then show ?case by simp
next
  case (Cons kq queries)
  obtain key query where kq: "kq = (key, query)"
    by (cases kq)
  obtain result lines where r: "run_sql_query e query None = (result, lines)"
    by (cases "run_sql_query e query None")
  have res: "result =
      (case read_sql_query e query None of
         Inl ex \<Rightarrow> [[(''error'', SqlText (fst ex))]]
       | Inr results \<Rightarrow> results)"
    using fst_run_sql_query_None [of e query] r by simp
  have blk: "result \<noteq> [] \<Longrightarrow> labeled_block e key result = block_of e (key, query)"
    "result = [] \<Longrightarrow> block_of e (key, query) = []"
    by (auto simp: res block_of_def split: sum.splits)
  show ?case
    by (simp add: kq r blk Cons.IH)
qed

lemma run_catalog_printed:
  "snd (run_catalog e queries (ctx, printed)) = printed @ concat (map (printed_of e) queries)"
proof (induction queries arbitrary: ctx printed)
  case Nil
  then show ?case by simp
next
  case (Cons kq queries)
  obtain key query where kq: "kq = (key, query)"
    by (cases kq)
  obtain result lines where r: "run_sql_query e query None = (result, lines)"
    by (cases "run_sql_query e query None")
  have "lines = printed_of e (key, query)"
    using snd_run_sql_query_None [of e query] r
    by (auto simp: printed_of_def split: sum.splits)
  then show ?case
    by (simp add: kq r Cons.IH)
qed

text \<open>The prompt cannot be built exactly when the filter leaves no row.\<close>

lemma db_context_of_empty: "db_context_of info [] = Inl ValueError"
  by (simp add: db_context_of_def)

lemma db_context_of_rows: "rows \<noteq> [] \<Longrightarrow> \<exists>c. db_context_of info rows = Inr c"
  by (cases rows) (simp_all add: db_context_of_def)

lemma fst_build_prompt:
  "fst (build_prompt e df t sp sy sc) =
     (case db_context_of (schema_info_of (fst (get_database_schema e)))
             (fst (chat_filtered_df e df sp sy sc)) of
        Inl err \<Rightarrow> Inl err
      | Inr c \<Rightarrow>
          Inr (prompt_of c
                 (fst (run_catalog e data_queries ([], snd (chat_filtered_df e df sp sy sc)))) t))"
  by (simp add: build_prompt_def split: prod.splits sum.splits)

lemma build_prompt_empty:
  "fst (chat_filtered_df e df sp sy sc) = [] \<Longrightarrow>
   fst (build_prompt e df t sp sy sc) = Inl ValueError"
  by (simp add: fst_build_prompt db_context_of_empty)

lemma build_prompt_rows:
  assumes "fst (chat_filtered_df e df sp sy sc) \<noteq> []"
  shows "\<exists>p. fst (build_prompt e df t sp sy sc) = Inr p"
proof -
  from db_context_of_rows [OF assms] obtain c where
    "db_context_of (schema_info_of (fst (get_database_schema e)))
       (fst (chat_filtered_df e df sp sy sc)) = Inr c"
    by blast
  then show ?thesis
    by (simp add: fst_build_prompt)
qed

text \<open>
  Past the guard, the callback returns the history with the two new messages when the
  filter leaves a row, and raises \<open>ValueError\<close> when it leaves none.
\<close>

lemma run_callback_returns:
  assumes nonempty: "\<not> no_text (user_input s)"
    and clicks: "\<not> (no_clicks (send_clicks s) \<and> no_clicks (enter_clicks s))"
    and rows: "fst (chat_filtered_df (world s) df (selected_products s) (selected_year s)
                 (selected_category s)) \<noteq> []"
  shows "fst (run_callback df s h) = Inr (Messages (messages_of h @ exchange df s))"
proof -
  from nonempty obtain t where t: "user_input s = Some t" "t \<noteq> []"
    by (cases "user_input s") auto
  from build_prompt_rows [OF rows] obtain p where
    p: "fst (build_prompt (world s) df t (selected_products s) (selected_year s)
              (selected_category s)) = Inr p"
    by blast
  obtain printed where
    bp: "build_prompt (world s) df t (selected_products s) (selected_year s)
           (selected_category s) = (Inr p, printed)"
    using p by (cases "build_prompt (world s) df t (selected_products s) (selected_year s)
           (selected_category s)") auto
  obtain a lines where a: "ai_response_of (world s) p = (a, lines)"
    by (cases "ai_response_of (world s) p")
  have "exchange df s =
      [\<lparr>sender = ''user'', message_text = t\<rparr>, \<lparr>sender = ''ai'', message_text = a\<rparr>]"
    by (simp add: exchange_def question_def reply_def t p a)
  moreover have "fst (run_callback df s h) =
      Inr (Messages ((messages_of h @ [\<lparr>sender = ''user'', message_text = t\<rparr>]) @
             [\<lparr>sender = ''ai'', message_text = a\<rparr>]))"
    using clicks by (simp add: run_callback_def process_user_message_def t bp a)
  ultimately show ?thesis
    by simp
qed

lemma run_callback_raises:
  assumes nonempty: "\<not> no_text (user_input s)"
    and clicks: "\<not> (no_clicks (send_clicks s) \<and> no_clicks (enter_clicks s))"
    and rows: "fst (chat_filtered_df (world s) df (selected_products s) (selected_year s)
                 (selected_category s)) = []"
  shows "fst (run_callback df s h) = Inl (Unhandled ValueError)"
proof -
  from nonempty obtain t where t: "user_input s = Some t" "t \<noteq> []"
    by (cases "user_input s") auto
  from rows have "fst (build_prompt (world s) df t (selected_products s) (selected_year s)
      (selected_category s)) = Inl ValueError"
    by (rule build_prompt_empty)
  then obtain printed where
    "build_prompt (world s) df t (selected_products s) (selected_year s)
       (selected_category s) = (Inl ValueError, printed)"
    by (cases "build_prompt (world s) df t (selected_products s) (selected_year s)
       (selected_category s)") auto
  with clicks show ?thesis
    by (simp add: run_callback_def process_user_message_def t)
qed

section \<open>Growth percentages (C1)\<close>

text \<open>
  C1. A month whose previous month has a total initial count of 0 is meant to get the
  growth percentage 0, and no rendered percentage is meant to be NaN or infinite.
  \<open>create_growth_chart\<close> divides without a guard: in \<open>restocked_df\<close> the totals are
  0, 0 and 5, so February (0 after 0) is NaN and is dropped from the chart, and March
  (5 after 0) is rendered with the percentage \<open>+inf\<close>.
\<close>

theorem create_growth_chart_previous_zero:
  "create_growth_chart restocked_df = [((2023, 3), PosInf, ''#4cc9f0'')]"
  by (simp add: create_growth_chart_def restocked_df_def monthly_totals_def groupby_def
      month_year_def year_def month_def shift1_def pct_change_of_def growth_colour_def
      is_nan_def)

section \<open>The context document (C2, C10)\<close>

text \<open>
  C2, as stated: the block of a failed catalog query is left out of the context document.
  It fails: in \<open>broken_query_world\<close> the first query raises and every other query has
  no row, so the document the claim describes is empty, while the loop writes the block
  \<open>[max_initial_count]\<close> with the error dictionary.
\<close>

theorem failed_query_block_not_omitted:
  "fst (run_catalog broken_query_world data_queries ([], [])) \<noteq>
   context_omitting_failures broken_query_world data_queries"
  by (simp add: run_catalog_text)
    (simp add: data_queries_def block_of_def context_omitting_failures_def
      broken_query_world_def quiet_world_def labeled_block_def)

text \<open>
  C2, amended: every query of the catalog is run, in the order of the catalog; the
  document is the sequence of the blocks of the queries in that order, where a query
  without rows has no block and a failed query has the block that holds its error
  dictionary; and every failure is printed.
\<close>

theorem run_catalog_blocks_in_order:
  "run_catalog e data_queries ([], []) =
     (concat (map (block_of e) data_queries), concat (map (printed_of e) data_queries))"
  using run_catalog_text [of e data_queries "[]" "[]"]
    run_catalog_printed [of e data_queries "[]" "[]"]
  by (simp add: prod_eq_iff)

text \<open>
  C10. \<open>run_sql_query\<close> always returns a list: the rows of the result (the empty list
  when there is none), and when the store raises a list of one dictionary that maps
  \<open>error\<close> to the text of the exception, with the failure printed.
\<close>

theorem run_sql_query_total:
  "run_sql_query e query params =
     (case read_sql_query e query
             (if params \<noteq> None \<and> params \<noteq> Some [] then params else None) of
        Inr results \<Rightarrow> (results, [])
      | Inl ex \<Rightarrow>
          ([[(''error'', SqlText (fst ex))]], [SqlQueryError (fst ex) query (snd ex)]))"
  by (auto simp: run_sql_query_def split: sum.splits)

section \<open>The conversation (C3, C6, C7)\<close>

text \<open>
  C3. Every processed submission is meant to add two messages to the history, the
  question and one reply. A submission with a text and a click passes the guard of the
  callback, but when the filter leaves no row (here the product dropdown has been
  cleared) the description of the frame raises \<open>ValueError\<close>, outside any
  \<open>try\<close>: the callback ends without a result and the history of the store is not two
  messages longer, it is what it was. The tab callback guards the empty frame; this
  callback does not.
\<close>

theorem cleared_selection_adds_no_message:
  "\<not> no_text (user_input cleared_submission) \<and>
   \<not> (no_clicks (send_clicks cleared_submission) \<and>
      no_clicks (enter_clicks cleared_submission)) \<and>
   fst (run_callback example_df cleared_submission (Messages [greeting])) =
     Inl (Unhandled ValueError) \<and>
   submit example_df cleared_submission (Messages [greeting]) = Messages [greeting] \<and>
   length (messages_of (submit example_df cleared_submission (Messages [greeting]))) = 1"
proof -
  have nonempty: "\<not> no_text (user_input cleared_submission)"
    and clicks: "\<not> (no_clicks (send_clicks cleared_submission) \<and>
      no_clicks (enter_clicks cleared_submission))"
    by (simp_all add: cleared_submission_def example_submission_def)
  have rows: "fst (chat_filtered_df (world cleared_submission) example_df
      (selected_products cleared_submission) (selected_year cleared_submission)
      (selected_category cleared_submission)) = []"
    by (simp add: cleared_submission_def example_submission_def chat_filtered_df_def
        chat_filter_def)
  have raises: "fst (run_callback example_df cleared_submission (Messages [greeting])) =
      Inl (Unhandled ValueError)"
    using nonempty clicks rows by (rule run_callback_raises)
  then have same: "submit example_df cleared_submission (Messages [greeting]) =
      Messages [greeting]"
    by (simp add: submit_def)
  from nonempty clicks raises same show ?thesis
    by simp
qed



text \<open>
  C7, as stated: an empty or blank input changes nothing. It fails for a blank input:
  the guard tests \<open>not user_input\<close>, which a string of one space passes, and the
  submission is processed like any other.
\<close>

theorem blank_input_is_processed:
  "submit example_df (example_submission\<lparr>user_input := Some '' ''\<rparr>) (Messages [greeting]) =
     Messages ([greeting] @ exchange example_df (example_submission\<lparr>user_input := Some '' ''\<rparr>)) \<and>
   submit example_df (example_submission\<lparr>user_input := Some '' ''\<rparr>) (Messages [greeting]) \<noteq>
     Messages [greeting]"
proof -
  let ?s = "example_submission\<lparr>user_input := Some '' ''\<rparr>"
  have nonempty: "\<not> no_text (user_input ?s)"
    and clicks: "\<not> (no_clicks (send_clicks ?s) \<and> no_clicks (enter_clicks ?s))"
    by (simp_all add: example_submission_def)
  have rows: "fst (chat_filtered_df (world ?s) example_df (selected_products ?s)
      (selected_year ?s) (selected_category ?s)) \<noteq> []"
    by (simp add: example_submission_def example_df_def chat_filtered_df_def chat_filter_def)
  from run_callback_returns [OF nonempty clicks rows, of "Messages [greeting]"] show ?thesis
    by (simp add: submit_def exchange_def)
qed

text \<open>
  C7, amended: an input that is missing or the empty string, and a callback without a
  click and without Enter, end in \<open>PreventUpdate\<close> before anything is filtered, queried
  or printed, and the store keeps its history.
\<close>

theorem empty_input_no_state_change:
  assumes "no_text (user_input s) \<or> (no_clicks (send_clicks s) \<and> no_clicks (enter_clicks s))"
  shows "run_callback df s h = (Inl PreventUpdate, []) \<and> submit df s h = h"
  using assms
  by (cases "user_input s") (auto simp: run_callback_def process_user_message_def submit_def)

theorem empty_input_no_state_change_witness:
  "no_text (user_input (example_submission\<lparr>user_input := Some ''''\<rparr>)) \<and>
   run_callback example_df (example_submission\<lparr>user_input := Some ''''\<rparr>)
     (Messages [greeting]) = (Inl PreventUpdate, []) \<and>
   submit example_df (example_submission\<lparr>user_input := Some ''''\<rparr>) (Messages [greeting]) =
     Messages [greeting]"
  using empty_input_no_state_change
    [of "example_submission\<lparr>user_input := Some ''''\<rparr>" example_df "Messages [greeting]"]
  by simp

section \<open>Summaries of the aggregation engine (C5, C8, C9)\<close>

text \<open>
  C5. On an empty selection the tab callback returns the explicit no-data alert, whatever
  the tab, before any summary is computed; and the summary metrics of the real-time
  dashboard are all zero on an empty frame.
\<close>

theorem empty_selection_explicit_result:
  "(apply_filters parse products yr cat df = Inr [] \<longrightarrow>
      render_tab_content parse products_df df active_tab products yr time_period cat =
        Inr NoDataAlert) \<and>
   get_summary_metrics [] =
     \<lparr>total_movements = 0, incoming_count = 0, outgoing_count = 0,
      incoming_items = 0, outgoing_items = 0, net_change = 0\<rparr>"
  by (simp add: render_tab_content_def get_summary_metrics_def)

theorem empty_selection_explicit_result_witness:
  "apply_filters py_int_of_str None (PInt 2023) (Some ''Type Z'') example_df = Inr [] \<and>
   render_tab_content py_int_of_str example_products example_df ''tab-time'' None (PInt 2023)
     (Some ''month'') (Some ''Type Z'') = Inr NoDataAlert"
proof -
  have empty: "apply_filters py_int_of_str None (PInt 2023) (Some ''Type Z'') example_df = Inr []"
    by (simp add: apply_filters_def filter_year_def filter_products_def filter_category_def
        example_df_def year_def)
  from empty_selection_explicit_result
    [of py_int_of_str None "PInt 2023" "Some ''Type Z''" example_df example_products
      "''tab-time''" "Some ''month''"]
    empty
  show ?thesis
    by simp
qed

text \<open>
  C8, as stated: rows with equal counts come in the order of descending date. It fails:
  nothing in the summary looks at the date after the grouping, and in \<open>example_df\<close>,
  where every (date, product) pair has one row, the pairs of 30 January come before the
  pairs of 31 January.
\<close>

theorem busy_days_ties_not_by_date:
  "create_busy_days_chart example_df =
     [(((2023, 1, 30), ''Box Product''), 1), (((2023, 1, 30), ''Cylindrical Product''), 1),
      (((2023, 1, 31), ''Box Product''), 1), (((2023, 1, 31), ''Cylindrical Product''), 1)] \<and>
   \<not> by_count_then_date_desc (create_busy_days_chart example_df)"
  by (simp add: by_count_then_date_desc_def create_busy_days_chart_def transaction_counts_def
      groupby_def sort_values_desc_def example_df_def)

text \<open>
  C8, amended: the summary has ten rows, or as many as there are (date, product) pairs
  with a row when these are fewer; the counts descend; every row is a different pair of
  the frame with its number of rows, which is at least 1.
\<close>

theorem busy_days_top_ten:
  "length (create_busy_days_chart df) =
     min 10 (card ((\<lambda>r. (date r, product_name r)) ` set df)) \<and>
   sorted_wrt (\<lambda>a b. snd b \<le> snd a) (create_busy_days_chart df) \<and>
   list_all (\<lambda>(k, n). n = length (filter (\<lambda>r. (date r, product_name r) = k) df) \<and> 1 \<le> n)
     (create_busy_days_chart df) \<and>
   distinct (map fst (create_busy_days_chart df))"
proof -
  let ?top = "create_busy_days_chart df"
  have top: "?top = take 10 (sort_values_desc snd (transaction_counts df))"
    by (simp add: create_busy_days_chart_def)
  have len: "length ?top = min 10 (card ((\<lambda>r. (date r, product_name r)) ` set df))"
    by (simp add: top length_sort_values_desc length_transaction_counts min.commute)
  have srt: "sorted_wrt (\<lambda>a b. snd b \<le> snd a) ?top"
    unfolding top by (rule sorted_wrt_take) (rule sort_values_desc_sorted)
  have sub: "set ?top \<subseteq> set (transaction_counts df)"
    unfolding top using set_take_subset [of 10 "sort_values_desc snd (transaction_counts df)"]
    by (simp add: set_sort_values_desc)
  have ent: "list_all
      (\<lambda>(k, n). n = length (filter (\<lambda>r. (date r, product_name r) = k) df) \<and> 1 \<le> n) ?top"
    unfolding list_all_iff using sub transaction_counts_entry by fastforce
  have "distinct (map fst (sort_values_desc snd (transaction_counts df)))"
    using distinct_transaction_counts [of df] by (simp add: sort_values_desc_def distinct_map)
  then have dis: "distinct (map fst ?top)"
    unfolding top by (simp add: take_map [symmetric])
  from len srt ent dis show ?thesis
    by blast
qed

text \<open>
  C9. The three filter steps of the tab callback give the same result in each of the six
  orders, an exception of the year step included, and the values that stand for no
  restriction leave the frame as it is.
\<close>

theorem filters_commute:
  "map_sum id (filter_category c) (filter_year i y (filter_products p df)) =
     apply_filters i p y c df \<and>
   filter_year i y (filter_category c (filter_products p df)) = apply_filters i p y c df \<and>
   map_sum id (filter_category c \<circ> filter_products p) (filter_year i y df) =
     apply_filters i p y c df \<and>
   map_sum id (filter_products p \<circ> filter_category c) (filter_year i y df) =
     apply_filters i p y c df \<and>
   filter_year i y (filter_products p (filter_category c df)) = apply_filters i p y c df \<and>
   map_sum id (filter_products p) (filter_year i y (filter_category c df)) =
     apply_filters i p y c df \<and>
   filter_products None df = df \<and> filter_products (Some []) df = df \<and>
   filter_year i (PStr ''all'') df = Inr df \<and> filter_year i PNone df = Inr df \<and>
   filter_category (Some ''all'') df = df \<and> filter_category None df = df \<and>
   apply_filters i None (PStr ''all'') (Some ''all'') df = Inr df"
proof -
  have orders:
    "map_sum id (filter_category c) (filter_year i y (filter_products p df)) =
       apply_filters i p y c df"
    "filter_year i y (filter_category c (filter_products p df)) = apply_filters i p y c df"
    "map_sum id (filter_category c \<circ> filter_products p) (filter_year i y df) =
       apply_filters i p y c df"
    "map_sum id (filter_products p \<circ> filter_category c) (filter_year i y df) =
       apply_filters i p y c df"
    "filter_year i y (filter_products p (filter_category c df)) = apply_filters i p y c df"
    "map_sum id (filter_products p) (filter_year i y (filter_category c df)) =
       apply_filters i p y c df"
    by (auto simp: apply_filters_def filter_year_def filter_products_def filter_category_def
        split: sum.splits option.splits intro!: filter_cong)
  have neutral:
    "filter_products None df = df" "filter_products (Some []) df = df"
    "filter_year i (PStr ''all'') df = Inr df" "filter_year i PNone df = Inr df"
    "filter_category (Some ''all'') df = df" "filter_category None df = df"
    "apply_filters i None (PStr ''all'') (Some ''all'') df = Inr df"
    by (simp_all add: filter_products_def filter_year_def filter_category_def apply_filters_def)
  from orders neutral show ?thesis
    by blast
qed

section \<open>Properties of the movement generator (C4)\<close>

text \<open>
  C4. An outgoing movement is meant never to take the stock below zero. On a product whose
  stock is 0 the adjusted quantity is \<open>max 1 0 = 1\<close>, and the stock written back is \<open>-1\<close>.
\<close>

theorem generate_movement_sold_out_goes_negative:
  "select_instock (Products sold_out_store) ''Box Product'' = Some 0 \<and>
   select_instock (Products (generate_movement outgoing_draws ''2024-01-01 00:00:00'' 1
      sold_out_store)) ''Box Product'' = Some (- 1)"
  by (simp add: generate_movement_def sold_out_store_def outgoing_draws_def
      select_random_product_def select_instock_def update_instock_def
      movement_quantity_def new_stock_of_def)


end
